theory Spec2Isabelle
  imports Main "HOL-Library.Word"
begin

section \<open>Values of the request and of the store\<close>

text \<open>
  A JavaScript string is a sequence of UTF-16 code units, and \<open>length\<close> counts
  code units. String literals of the source that only label a response or a channel
  are kept as HOL strings.
\<close>

type_synonym code_unit = "16 word"
type_synonym jsstring = "code_unit list"

definition ascii :: "string \<Rightarrow> jsstring" where
  "ascii s = map (\<lambda>c. of_nat (of_char c)) s"

text \<open>
  What \<open>req.body\<close> can hold after JSON parsing. \<open>JUndefined\<close> is a key that is
  absent. A JSON number is kept as an integer: the handlers only test a number for
  truthiness and for not being a string, and every non-zero number answers both tests
  the same way.
\<close>

datatype js_value =
    JUndefined
  | JNull
  | JBool bool
  | JNum int
  | JStr jsstring
  | JArr "js_value list"
  | JObj "(jsstring \<times> js_value) list"

fun truthy :: "js_value \<Rightarrow> bool" where
  "truthy JUndefined = False"
| "truthy JNull = False"
| "truthy (JBool b) = b"
| "truthy (JNum n) = (n \<noteq> 0)"
| "truthy (JStr s) = (s \<noteq> [])"
| "truthy (JArr xs) = True"
| "truthy (JObj kvs) = True"

text \<open>The operator \<open>a ?? b\<close>.\<close>

fun nullish :: "js_value \<Rightarrow> js_value \<Rightarrow> js_value" where
  "nullish JUndefined d = d"
| "nullish JNull d = d"
| "nullish v d = v"

fun nullish_opt :: "'a option \<Rightarrow> 'a \<Rightarrow> 'a" where
  "nullish_opt None d = d"
| "nullish_opt (Some v) d = v"

subsection \<open>parseInt and isNaN\<close>

text \<open>
  \<open>parseInt(string)\<close> with no radix, as ECMAScript defines it: leading white space
  and line terminators are dropped, one sign is read, a prefix \<open>0x\<close> or \<open>0X\<close>
  selects radix 16 (otherwise 10), and the longest prefix of digits of that radix is
  the numeral; whatever follows is ignored. With no digit the result is NaN, here
  \<open>None\<close>. The value is the mathematical integer: its rounding to a Number never
  gives NaN, and the handlers only ask \<open>isNaN\<close>.
\<close>

definition isStrWhiteSpaceChar :: "code_unit \<Rightarrow> bool" where
  "isStrWhiteSpaceChar c \<longleftrightarrow>
     c = 0x09 \<or> c = 0x0A \<or> c = 0x0B \<or> c = 0x0C \<or> c = 0x0D \<or> c = 0x20 \<or>
     c = 0xA0 \<or> c = 0x1680 \<or> (0x2000 \<le> c \<and> c \<le> 0x200A) \<or>
     c = 0x2028 \<or> c = 0x2029 \<or> c = 0x202F \<or> c = 0x205F \<or> c = 0x3000 \<or>
     c = 0xFEFF"

definition digit_value :: "code_unit \<Rightarrow> nat option" where
  "digit_value c =
     (if 0x30 \<le> c \<and> c \<le> 0x39 then Some (unat c - 0x30)
      else if 0x61 \<le> c \<and> c \<le> 0x7A then Some (unat c - 0x61 + 10)
      else if 0x41 \<le> c \<and> c \<le> 0x5A then Some (unat c - 0x41 + 10)
      else None)"

definition radix_digit :: "nat \<Rightarrow> code_unit \<Rightarrow> nat option" where
  "radix_digit R c =
     (case digit_value c of
        None \<Rightarrow> None
      | Some d \<Rightarrow> if d < R then Some d else None)"

definition is_radix_digit :: "nat \<Rightarrow> code_unit \<Rightarrow> bool" where
  "is_radix_digit R c \<longleftrightarrow> radix_digit R c \<noteq> None"

definition numeral_value :: "nat \<Rightarrow> jsstring \<Rightarrow> nat" where
  "numeral_value R Z =
     foldl (\<lambda>a c. a * R + (case radix_digit R c of None \<Rightarrow> 0 | Some d \<Rightarrow> d)) 0 Z"

definition parseInt :: "jsstring \<Rightarrow> int option" where
  "parseInt inputString =
     (let S = dropWhile isStrWhiteSpaceChar inputString;
          sign = (if S \<noteq> [] \<and> hd S = 0x2D then - 1 else 1 :: int);
          S1 = (if S \<noteq> [] \<and> (hd S = 0x2B \<or> hd S = 0x2D) then tl S else S);
          hex = (take 2 S1 = [0x30, 0x78] \<or> take 2 S1 = [0x30, 0x58]);
          R = (if hex then 16 else 10);
          S2 = (if hex then drop 2 S1 else S1);
          Z = takeWhile (is_radix_digit R) S2
      in if Z = [] then None else Some (sign * int (numeral_value R Z)))"

definition isNaN :: "int option \<Rightarrow> bool" where
  "isNaN n \<longleftrightarrow> n = None"

section \<open>Records of the data model\<close>

text \<open>
  A room row. The schema of the room table is not among the sources; the handlers
  read \<open>id\<close>, \<open>type\<close> and the nullable \<open>space_id\<close> of a row.
\<close>

record room =
  r_id :: jsstring
  r_type :: int
  r_space_id :: "jsstring option"

text \<open>
  The authenticated caller, \<open>res.locals.user\<close>, as \<open>verifyToken\<close> leaves it
  (columns of the user schema that the handlers read).
\<close>

record user =
  u_id :: jsstring
  u_username :: jsstring
  u_discriminator :: int
  u_global_name :: "jsstring option"
  u_avatar :: "jsstring option"
  u_bot :: bool
  u_presence :: js_value
  u_system :: bool

text \<open>The object literal of type \<open>IMessage\<close> built by the create handler.\<close>

record message =
  m_room_id :: jsstring
  m_content :: jsstring
  m_id :: jsstring
  m_author_id :: jsstring
  m_space_id :: "jsstring option"
  m_system :: bool
  m_tts :: bool
  m_attachments :: "js_value list"
  m_embeds :: "js_value list"
  m_flags :: int
  m_mention_everyone :: bool
  m_mention_roles :: "js_value list"
  m_mention_rooms :: "js_value list"
  m_mentions :: "js_value list"
  m_message_reference_id :: js_value
  m_pinned :: bool
  m_reactions :: "js_value list"
  m_stickers :: "js_value list"
  m_thread_id :: "jsstring option"
  m_webhook_id :: "jsstring option"
  m_edited_at :: "int option"
  m_created_at :: int

text \<open>
  The \<open>author\<close> (or \<open>user\<close>) object of an event. \<open>pf_presence\<close> is \<open>None\<close>
  where the object literal has no \<open>presence\<close> key.
\<close>

record profile =
  pf_id :: jsstring
  pf_username :: jsstring
  pf_discriminator :: int
  pf_global_name :: "jsstring option"
  pf_display_name :: jsstring
  pf_avatar :: "jsstring option"
  pf_bot :: bool
  pf_presence :: "js_value option"

record message_create_data =
  mc_room_type :: int
  mc_space_id :: "jsstring option"
  mc_room_id :: jsstring
  mc_content :: jsstring
  mc_message_reference_id :: js_value
  mc_id :: jsstring
  mc_created_at :: int
  mc_author :: profile

record message_delete_data =
  md_id :: jsstring
  md_room_id :: jsstring
  md_space_id :: "jsstring option"
  md_content :: jsstring
  md_author :: profile

record typing_start_data =
  ts_room_id :: jsstring
  ts_space_id :: "jsstring option"
  ts_user :: profile

datatype event =
    message_create message_create_data
  | message_delete message_delete_data
  | typing_start typing_start_data

datatype resp_body =
    MessageBody string
  | CreatedBody message int
  | StatusBody string

section \<open>Effects, faults and the world\<close>

text \<open>
  The awaited calls of the handlers. Any of them may reject; \<open>faults\<close> of the
  environment lists the ones that do during the request at hand.
\<close>

datatype io_op = RoomSelectOp | MessageSelectOp | MessageInsertOp | MessageDeleteOp | RedisPublishOp

datatype exn = IOError io_op

text \<open>
  What a handler does to the outside, in the order it does it. A call is recorded
  when it is made, whether it then resolves or rejects.
\<close>

datatype effect =
    CallRoomSelect jsstring
  | CallMessageSelect jsstring
  | CallGenerateSnowflake nat
  | CallMessageInsert message
  | CallMessageDelete jsstring int jsstring
  | CallRedisPublish string event
  | Respond nat resp_body
  | ConsoleError exn

record world =
  rooms :: "room list"
  messages :: "message list"
  log :: "effect list"

text \<open>
  What the request gets from collaborators that are not among the sources: the id
  that \<open>generateSnowflake\<close> (helpers/generator) returns, the configured
  \<open>MESSAGE_WORKER_ID\<close>, the reading of \<open>Date.now()\<close>, and the awaited calls that
  reject.
\<close>

record env =
  MESSAGE_WORKER_ID :: nat
  snowflake :: jsstring
  date_now :: int
  faults :: "io_op list"

record request =
  p_room_id :: jsstring
  p_message_id :: jsstring
  b_content :: js_value
  b_message_reference_id :: js_value
  h_authorization :: jsstring

datatype outcome = Returned | Threw exn

definition emit :: "effect \<Rightarrow> world \<Rightarrow> world" where
  "emit e w = w\<lparr>log := log w @ [e]\<rparr>"

text \<open>The effects of one request: what the log gained between two worlds.\<close>

definition emitted :: "world \<Rightarrow> world \<Rightarrow> effect list" where
  "emitted w w' = drop (length (log w)) (log w')"

definition res_json :: "nat \<Rightarrow> resp_body \<Rightarrow> world \<Rightarrow> world" where
  "res_json status body w = emit (Respond status body) w"

definition console_error :: "exn \<Rightarrow> world \<Rightarrow> world" where
  "console_error err w = emit (ConsoleError err) w"

text \<open>
  \<open>generateSnowflake\<close> is a helper of helpers/generator, which is not among the
  sources: the call is recorded, and the id it returns is the parameter
  \<open>snowflake\<close> of the environment.
\<close>

definition generateSnowflake :: "env \<Rightarrow> world \<Rightarrow> jsstring \<times> world" where
  "generateSnowflake env w =
     (snowflake env, emit (CallGenerateSnowflake (MESSAGE_WORKER_ID env)) w)"

subsection \<open>The storage and bus calls\<close>

text \<open>
  Modelled from the spec: the store and the bus. \<open>Room\<close> and \<open>Message\<close> are
  models of better-cassandra and \<open>redis\<close> is the bus client; their code is not
  among the sources. The spec (sections 1, 3 and 7) has a column-family store with
  equality lookups, where \<open>(room_id, id, created_at)\<close> identifies a message row, and
  atomic single-row writes. So a select with one \<open>equals\<close> clause and
  \<open>$limit: 1\<close> gives at most one row with that column value; an insert writes the
  row under its key \<open>(id, created_at, room_id)\<close>; a delete with the three
  \<open>equals\<close> clauses removes the rows with these three values. A call that rejects
  leaves the store as it was.
\<close>

definition Room_select :: "env \<Rightarrow> jsstring \<Rightarrow> world \<Rightarrow> (exn + room list) \<times> world" where
  "Room_select env rid w =
     (let w1 = emit (CallRoomSelect rid) w
      in if RoomSelectOp \<in> set (faults env) then (Inl (IOError RoomSelectOp), w1)
         else (Inr (take 1 (filter (\<lambda>r. r_id r = rid) (rooms w))), w1))"

definition Message_select :: "env \<Rightarrow> jsstring \<Rightarrow> world \<Rightarrow> (exn + message list) \<times> world" where
  "Message_select env mid w =
     (let w1 = emit (CallMessageSelect mid) w
      in if MessageSelectOp \<in> set (faults env) then (Inl (IOError MessageSelectOp), w1)
         else (Inr (take 1 (filter (\<lambda>m. m_id m = mid) (messages w))), w1))"

definition has_key :: "jsstring \<Rightarrow> int \<Rightarrow> jsstring \<Rightarrow> message \<Rightarrow> bool" where
  "has_key i c r m \<longleftrightarrow> m_id m = i \<and> m_created_at m = c \<and> m_room_id m = r"

definition upsert :: "message \<Rightarrow> message list \<Rightarrow> message list" where
  "upsert msg ms =
     filter (\<lambda>m. \<not> has_key (m_id msg) (m_created_at msg) (m_room_id msg) m) ms @ [msg]"

definition Message_insert :: "env \<Rightarrow> message \<Rightarrow> world \<Rightarrow> (exn + unit) \<times> world" where
  "Message_insert env msg w =
     (let w1 = emit (CallMessageInsert msg) w
      in if MessageInsertOp \<in> set (faults env) then (Inl (IOError MessageInsertOp), w1)
         else (Inr (), w1\<lparr>messages := upsert msg (messages w1)\<rparr>))"

definition Message_delete ::
  "env \<Rightarrow> jsstring \<Rightarrow> int \<Rightarrow> jsstring \<Rightarrow> world \<Rightarrow> (exn + unit) \<times> world" where
  "Message_delete env i c r w =
     (let w1 = emit (CallMessageDelete i c r) w
      in if MessageDeleteOp \<in> set (faults env) then (Inl (IOError MessageDeleteOp), w1)
         else (Inr (), w1\<lparr>messages := filter (\<lambda>m. \<not> has_key i c r m) (messages w1)\<rparr>))"

definition redis_publish :: "env \<Rightarrow> string \<Rightarrow> event \<Rightarrow> world \<Rightarrow> (exn + unit) \<times> world" where
  "redis_publish env channel ev w =
     (let w1 = emit (CallRedisPublish channel ev) w
      in if RedisPublishOp \<in> set (faults env) then (Inl (IOError RedisPublishOp), w1)
         else (Inr (), w1))"

section \<open>The three handlers of routes/v1/rooms.ts\<close>

definition author_of :: "user \<Rightarrow> profile" where
  "author_of usr =
     \<lparr> pf_id = u_id usr,
       pf_username = u_username usr,
       pf_discriminator = u_discriminator usr,
       pf_global_name = u_global_name usr,
       pf_display_name = nullish_opt (u_global_name usr) (u_username usr),
       pf_avatar = u_avatar usr,
       pf_bot = u_bot usr,
       pf_presence = None \<rparr>"

definition new_message ::
  "env \<Rightarrow> user \<Rightarrow> room \<Rightarrow> jsstring \<Rightarrow> jsstring \<Rightarrow> js_value \<Rightarrow> jsstring \<Rightarrow> message" where
  "new_message env usr room room_id content message_reference_id message_id =
     \<lparr> m_room_id = room_id,
       m_content = content,
       m_id = message_id,
       m_author_id = u_id usr,
       m_space_id = r_space_id room,
       m_system = u_system usr,
       m_tts = False,
       m_attachments = [],
       m_embeds = [],
       m_flags = 0,
       m_mention_everyone = False,
       m_mention_roles = [],
       m_mention_rooms = [],
       m_mentions = [],
       m_message_reference_id = nullish message_reference_id JNull,
       m_pinned = False,
       m_reactions = [],
       m_stickers = [],
       m_thread_id = None,
       m_webhook_id = None,
       m_edited_at = None,
       m_created_at = date_now env \<rparr>"

definition message_create_event ::
  "user \<Rightarrow> room \<Rightarrow> jsstring \<Rightarrow> js_value \<Rightarrow> jsstring \<Rightarrow> message \<Rightarrow> event" where
  "message_create_event usr room content message_reference_id message_id msg =
     message_create
       \<lparr> mc_room_type = r_type room,
         mc_space_id = r_space_id room,
         mc_room_id = r_id room,
         mc_content = content,
         mc_message_reference_id = nullish message_reference_id JNull,
         mc_id = message_id,
         mc_created_at = m_created_at msg,
         mc_author = (author_of usr)\<lparr>pf_presence := Some (u_presence usr)\<rparr> \<rparr>"

text \<open>
  \<open>router.post("/:room_id/messages", \<dots>)\<close>, the handler proper (after
  \<open>verifyToken\<close> and the limiter). It has no try block: a rejected call leaves
  the handler as a rejected promise, \<open>Threw\<close>.
\<close>

definition post_messages :: "env \<Rightarrow> user \<Rightarrow> request \<Rightarrow> world \<Rightarrow> outcome \<times> world" where
  "post_messages env usr req w =
     (let room_id = p_room_id req in
      if isNaN (parseInt room_id) then
        (Returned, res_json 400 (MessageBody ''Invalid room id'') w)
      else
        let content = b_content req; message_reference_id = b_message_reference_id req in
        if \<not> truthy content then
          (Returned, res_json 400 (MessageBody ''You must provide content for your message.'') w)
        else
          (case content of
             JStr text \<Rightarrow>
               if length text > 1024 then
                 (Returned,
                  res_json 400
                    (MessageBody ''Message content must be less than 1,024 characters long.'') w)
               else
                 (case Room_select env room_id w of
                    (Inl err, w1) \<Rightarrow> (Threw err, w1)
                  | (Inr rs, w1) \<Rightarrow>
                      (case rs of
                         [] \<Rightarrow>
                           (Returned,
                            res_json 404
                              (MessageBody ''The room you were looking for does not exist.'') w1)
                       | room # _ \<Rightarrow>
                           (case generateSnowflake env w1 of
                              (message_id, w2) \<Rightarrow>
                                if r_type room = 1 then
                                  (let msg = new_message env usr room room_id text
                                               message_reference_id message_id
                                   in case Message_insert env msg w2 of
                                        (Inl err, w3) \<Rightarrow> (Threw err, w3)
                                      | (Inr _, w3) \<Rightarrow>
                                          (let w4 = res_json 200 (CreatedBody msg 0) w3
                                           in case redis_publish env ''stargate''
                                                     (message_create_event usr room text
                                                        message_reference_id message_id msg) w4 of
                                                (Inl err, w5) \<Rightarrow> (Threw err, w5)
                                              | (Inr _, w5) \<Rightarrow> (Returned, w5)))
                                else
                                  (Returned,
                                   res_json 400
                                     (MessageBody ''This room does not support message sending.'')
                                     w2))))
           | _ \<Rightarrow>
               (Returned, res_json 400 (MessageBody ''Message content must be a string.'') w)))"

text \<open>
  \<open>router.delete("/:room_id/messages/:message_id", \<dots>)\<close>: first the try block,
  whose result is the exception it raises or nothing, then the handler with its
  catch clause.
\<close>

definition delete_message_try ::
  "env \<Rightarrow> user \<Rightarrow> request \<Rightarrow> world \<Rightarrow> (exn + unit) \<times> world" where
  "delete_message_try env usr req w =
     (let room_id = p_room_id req; message_id = p_message_id req in
      if isNaN (parseInt room_id) then
        (Inr (), res_json 400 (MessageBody ''Invalid room ID.'') w)
      else if isNaN (parseInt message_id) then
        (Inr (), res_json 400 (MessageBody ''Invalid message ID.'') w)
      else
        (case Room_select env room_id w of
           (Inl err, w1) \<Rightarrow> (Inl err, w1)
         | (Inr rs, w1) \<Rightarrow>
             (case rs of
                [] \<Rightarrow>
                  (Inr (),
                   res_json 404 (MessageBody ''The room you were looking for does not exist.'') w1)
              | room # _ \<Rightarrow>
                  (case Message_select env message_id w1 of
                     (Inl err, w2) \<Rightarrow> (Inl err, w2)
                   | (Inr ms, w2) \<Rightarrow>
                       (case ms of
                          [] \<Rightarrow>
                            (Inr (),
                             res_json 404
                               (MessageBody ''The message you were looking for does not exist.'')
                               w2)
                        | msg # _ \<Rightarrow>
                            (case Message_delete env (m_id msg) (m_created_at msg)
                                    (m_room_id msg) w2 of
                               (Inl err, w3) \<Rightarrow> (Inl err, w3)
                             | (Inr _, w3) \<Rightarrow>
                                 (case redis_publish env ''stargate''
                                         (message_delete
                                            \<lparr> md_id = m_id msg,
                                              md_room_id = r_id room,
                                              md_space_id = r_space_id room,
                                              md_content = m_content msg,
                                              md_author = author_of usr \<rparr>) w3 of
                                    (Inl err, w4) \<Rightarrow> (Inl err, w4)
                                  | (Inr _, w4) \<Rightarrow>
                                      (Inr (), res_json 202 (StatusBody ''Sent'') w4))))))))"

definition delete_message :: "env \<Rightarrow> user \<Rightarrow> request \<Rightarrow> world \<Rightarrow> outcome \<times> world" where
  "delete_message env usr req w =
     (case delete_message_try env usr req w of
        (Inl err, w1) \<Rightarrow>
          (Returned, res_json 500 (MessageBody ''Interal Server Error'') (console_error err w1))
      | (Inr _, w1) \<Rightarrow> (Returned, w1))"

text \<open>\<open>router.post("/:room_id/typing", \<dots>)\<close>, in the same two layers.\<close>

definition post_typing_try ::
  "env \<Rightarrow> user \<Rightarrow> request \<Rightarrow> world \<Rightarrow> (exn + unit) \<times> world" where
  "post_typing_try env usr req w =
     (let room_id = p_room_id req in
      case Room_select env room_id w of
        (Inl err, w1) \<Rightarrow> (Inl err, w1)
      | (Inr rs, w1) \<Rightarrow>
          (case rs of
             [] \<Rightarrow>
               (Inr (),
                res_json 404 (MessageBody ''The room you were looking for does not exist.'') w1)
           | room # _ \<Rightarrow>
               (case redis_publish env ''stargate''
                       (typing_start
                          \<lparr> ts_room_id = r_id room,
                            ts_space_id = r_space_id room,
                            ts_user = author_of usr \<rparr>) w1 of
                  (Inl err, w2) \<Rightarrow> (Inl err, w2)
                | (Inr _, w2) \<Rightarrow> (Inr (), res_json 204 (MessageBody ''OK'') w2))))"

definition post_typing :: "env \<Rightarrow> user \<Rightarrow> request \<Rightarrow> world \<Rightarrow> outcome \<times> world" where
  "post_typing env usr req w =
     (case post_typing_try env usr req w of
        (Inl err, w1) \<Rightarrow>
          (Returned, res_json 500 (MessageBody ''Interal Server Error'') (console_error err w1))
      | (Inr _, w1) \<Rightarrow> (Returned, w1))"

section \<open>Reading a log\<close>

definition is_persist :: "effect \<Rightarrow> bool" where
  "is_persist e = (case e of CallMessageInsert _ \<Rightarrow> True | CallMessageDelete _ _ _ \<Rightarrow> True | _ \<Rightarrow> False)"

definition is_publish :: "effect \<Rightarrow> bool" where
  "is_publish e = (case e of CallRedisPublish _ _ \<Rightarrow> True | _ \<Rightarrow> False)"

definition is_response :: "effect \<Rightarrow> bool" where
  "is_response e = (case e of Respond _ _ \<Rightarrow> True | _ \<Rightarrow> False)"

definition is_success_response :: "effect \<Rightarrow> bool" where
  "is_success_response e = (case e of Respond st _ \<Rightarrow> 200 \<le> st \<and> st < 300 | _ \<Rightarrow> False)"

definition is_storage_or_bus_call :: "effect \<Rightarrow> bool" where
  "is_storage_or_bus_call e =
     (case e of
        CallRoomSelect _ \<Rightarrow> True
      | CallMessageSelect _ \<Rightarrow> True
      | CallMessageInsert _ \<Rightarrow> True
      | CallMessageDelete _ _ _ \<Rightarrow> True
      | CallRedisPublish _ _ \<Rightarrow> True
      | _ \<Rightarrow> False)"

text \<open>
  \<open>preceded P Q xs\<close>: in \<open>xs\<close>, no effect of kind \<open>Q\<close> comes before the first
  effect of kind \<open>P\<close>; so every \<open>Q\<close> of \<open>xs\<close> has a \<open>P\<close> earlier in \<open>xs\<close>.
\<close>

fun preceded :: "('a \<Rightarrow> bool) \<Rightarrow> ('a \<Rightarrow> bool) \<Rightarrow> 'a list \<Rightarrow> bool" where
  "preceded P Q [] = True"
| "preceded P Q (x # xs) = (P x \<or> (\<not> Q x \<and> preceded P Q xs))"

text \<open>The row that a select by id with limit 1 returns.\<close>

definition room_by_id :: "jsstring \<Rightarrow> world \<Rightarrow> room option" where
  "room_by_id rid w = find (\<lambda>r. r_id r = rid) (rooms w)"

definition message_by_id :: "jsstring \<Rightarrow> world \<Rightarrow> message option" where
  "message_by_id mid w = find (\<lambda>m. m_id m = mid) (messages w)"

text \<open>Shorthands for the rows a delete removes and for the event literals.\<close>

definition remove_key :: "message \<Rightarrow> message list \<Rightarrow> message list" where
  "remove_key msg ms =
     filter (\<lambda>m. \<not> has_key (m_id msg) (m_created_at msg) (m_room_id msg) m) ms"

definition message_delete_event :: "user \<Rightarrow> room \<Rightarrow> message \<Rightarrow> event" where
  "message_delete_event usr room msg =
     message_delete
       \<lparr> md_id = m_id msg,
         md_room_id = r_id room,
         md_space_id = r_space_id room,
         md_content = m_content msg,
         md_author = author_of usr \<rparr>"

definition typing_start_event :: "user \<Rightarrow> room \<Rightarrow> event" where
  "typing_start_event usr room =
     typing_start
       \<lparr> ts_room_id = r_id room,
         ts_space_id = r_space_id room,
         ts_user = author_of usr \<rparr>"

section \<open>A small world to run the handlers in\<close>

definition alice :: user where
  "alice =
     \<lparr> u_id = ascii ''7'', u_username = ascii ''alice'', u_discriminator = 1,
       u_global_name = None, u_avatar = None, u_bot = False, u_presence = JNull,
       u_system = False \<rparr>"

definition bob :: user where
  "bob =
     \<lparr> u_id = ascii ''8'', u_username = ascii ''bob'', u_discriminator = 2,
       u_global_name = Some (ascii ''Bob''), u_avatar = None, u_bot = False,
       u_presence = JNull, u_system = False \<rparr>"

definition env_ok :: env where
  "env_ok = \<lparr> MESSAGE_WORKER_ID = 1, snowflake = ascii ''901'', date_now = 2000, faults = [] \<rparr>"

definition env_bus_down :: env where
  "env_bus_down = env_ok\<lparr>faults := [RedisPublishOp]\<rparr>"

definition env_store_down :: env where
  "env_store_down = env_ok\<lparr>faults := [RoomSelectOp]\<rparr>"

definition lobby :: room where
  "lobby = \<lparr> r_id = ascii ''1'', r_type = 1, r_space_id = Some (ascii ''10'') \<rparr>"

definition voice :: room where
  "voice = \<lparr> r_id = ascii ''2'', r_type = 2, r_space_id = Some (ascii ''20'') \<rparr>"

text \<open>A message that bob wrote in the lobby.\<close>

definition hello :: message where
  "hello =
     new_message (env_ok\<lparr>snowflake := ascii ''900'', date_now := 1000\<rparr>) bob lobby
       (ascii ''1'') (ascii ''hello'') JUndefined (ascii ''900'')"

definition world0 :: world where
  "world0 = \<lparr> rooms = [lobby, voice], messages = [hello], log = [] \<rparr>"

definition req_base :: request where
  "req_base =
     \<lparr> p_room_id = ascii ''1'', p_message_id = ascii ''900'',
       b_content = JStr (ascii ''hi''), b_message_reference_id = JUndefined,
       h_authorization = ascii ''token-a'' \<rparr>"

definition req_negative :: request where
  "req_negative = req_base\<lparr>p_room_id := ascii ''-5''\<rparr>"

definition req_letters :: request where
  "req_letters = req_base\<lparr>p_room_id := ascii ''lobby''\<rparr>"

definition req_voice :: request where
  "req_voice = req_base\<lparr>p_room_id := ascii ''2''\<rparr>"

definition long_text :: jsstring where
  "long_text = replicate 1025 0x61"

definition req_cross :: request where
  "req_cross = req_base\<lparr>p_room_id := ascii ''2''\<rparr>"

section \<open>The admission limiter of the create route\<close>

text \<open>
  The limiter's configuration in routes/v1/rooms.ts: \<open>windowMs: 1 * 100\<close>,
  \<open>max: 50\<close> (here \<open>max_hits\<close>), and the key of a request is its authorization
  header.
\<close>

definition windowMs :: int where
  "windowMs = 1 * 100"

definition max_hits :: nat where
  "max_hits = 50"

definition keyGenerator :: "request \<Rightarrow> jsstring" where
  "keyGenerator req = h_authorization req"

text \<open>
  The state of the limiter is the list of the attempts it has admitted, each with
  its identity and its time of arrival in milliseconds. \<open>in_window k s\<close> holds of
  the attempts of identity \<open>k\<close> in the window of length \<open>windowMs\<close> that starts
  after \<open>s\<close>.
\<close>

type_synonym limiter = "(jsstring \<times> int) list"

definition in_window :: "jsstring \<Rightarrow> int \<Rightarrow> jsstring \<times> int \<Rightarrow> bool" where
  "in_window k s a \<longleftrightarrow> fst a = k \<and> s < snd a \<and> snd a \<le> s + windowMs"

text \<open>
  Modelled from the spec: the limiter itself. \<open>rateLimit\<close> is the middleware of
  express-rate-limit; its code and its store are not among the sources. The spec
  (4.2) gives its contract: \<open>check(identity)\<close> allows at most N attempts per
  identity within a rolling window W and denies the others. So an attempt at time
  \<open>t\<close> is admitted, and recorded, when fewer than N admitted attempts of its
  identity lie in the window of length W that ends at \<open>t\<close>; otherwise it is
  denied and the state stays as it was.
\<close>

definition check :: "jsstring \<Rightarrow> int \<Rightarrow> limiter \<Rightarrow> bool \<times> limiter" where
  "check k t lim =
     (if length (filter (in_window k (t - windowMs)) lim) < max_hits
      then (True, lim @ [(k, t)])
      else (False, lim))"

text \<open>\<open>messageCreateLimit\<close>: the limiter under the configuration of the source.\<close>

definition messageCreateLimit :: "request \<Rightarrow> int \<Rightarrow> limiter \<Rightarrow> bool \<times> limiter" where
  "messageCreateLimit req now lim = check (keyGenerator req) now lim"

text \<open>
  Modelled from the spec: the create route, that is the limiter in front of the
  handler (\<open>verifyToken\<close> has passed and has set the user). A denied request gets
  a rejection response, and the handler does not run. The spec does not give the
  status of the rejection; 429 with the text below is what a rate limiter answers.
\<close>

definition post_messages_route ::
  "env \<Rightarrow> user \<Rightarrow> request \<Rightarrow> int \<Rightarrow> limiter \<times> world \<Rightarrow> outcome \<times> limiter \<times> world" where
  "post_messages_route env usr req now lw =
     (case lw of
        (lim, w) \<Rightarrow>
          (case messageCreateLimit req now lim of
             (True, lim1) \<Rightarrow>
               (case post_messages env usr req w of (out, w1) \<Rightarrow> (out, lim1, w1))
           | (False, lim1) \<Rightarrow>
               (Returned, lim1,
                res_json 429 (MessageBody ''Too many requests, please try again later.'') w)))"






section \<open>The handlers, run\<close>

lemma emitted_append [simp]: "emitted w (w\<lparr>log := log w @ xs\<rparr>) = xs"
  by (simp add: emitted_def)

lemma emitted_append_messages [simp]:
  "emitted w (w\<lparr>log := log w @ xs, messages := ms\<rparr>) = xs"
  by (simp add: emitted_def)

lemma take1_filter:
  "take (Suc 0) (filter P xs) = (case find P xs of None \<Rightarrow> [] | Some x \<Rightarrow> [x])"
  by (induction xs) auto

lemma Room_select_run:
  "Room_select env rid w =
     (if RoomSelectOp \<in> set (faults env) then Inl (IOError RoomSelectOp)
      else Inr (case room_by_id rid w of None \<Rightarrow> [] | Some r \<Rightarrow> [r]),
      w\<lparr>log := log w @ [CallRoomSelect rid]\<rparr>)"
  by (simp add: Room_select_def emit_def take1_filter room_by_id_def)

lemma Message_select_run:
  "Message_select env mid w =
     (if MessageSelectOp \<in> set (faults env) then Inl (IOError MessageSelectOp)
      else Inr (case message_by_id mid w of None \<Rightarrow> [] | Some m \<Rightarrow> [m]),
      w\<lparr>log := log w @ [CallMessageSelect mid]\<rparr>)"
  by (simp add: Message_select_def emit_def take1_filter message_by_id_def)

lemma room_by_id_log [simp]: "room_by_id rid (w\<lparr>log := l\<rparr>) = room_by_id rid w"
  by (simp add: room_by_id_def)

lemma message_by_id_log [simp]: "message_by_id mid (w\<lparr>log := l\<rparr>) = message_by_id mid w"
  by (simp add: message_by_id_def)

text \<open>Every run of the create handler, branch by branch.\<close>

lemma post_messages_run:
  "post_messages env usr req w =
    (if parseInt (p_room_id req) = None then
       (Returned, w\<lparr>log := log w @ [Respond 400 (MessageBody ''Invalid room id'')]\<rparr>)
     else if \<not> truthy (b_content req) then
       (Returned,
        w\<lparr>log := log w @
           [Respond 400 (MessageBody ''You must provide content for your message.'')]\<rparr>)
     else case b_content req of
       JStr text \<Rightarrow>
         if length text > 1024 then
           (Returned,
            w\<lparr>log := log w @
               [Respond 400
                  (MessageBody ''Message content must be less than 1,024 characters long.'')]\<rparr>)
         else if RoomSelectOp \<in> set (faults env) then
           (Threw (IOError RoomSelectOp), w\<lparr>log := log w @ [CallRoomSelect (p_room_id req)]\<rparr>)
         else (case room_by_id (p_room_id req) w of
            None \<Rightarrow>
              (Returned,
               w\<lparr>log := log w @
                  [CallRoomSelect (p_room_id req),
                   Respond 404 (MessageBody ''The room you were looking for does not exist.'')]\<rparr>)
          | Some room \<Rightarrow>
              if r_type room \<noteq> 1 then
                (Returned,
                 w\<lparr>log := log w @
                    [CallRoomSelect (p_room_id req),
                     CallGenerateSnowflake (MESSAGE_WORKER_ID env),
                     Respond 400 (MessageBody ''This room does not support message sending.'')]\<rparr>)
              else
                (let msg = new_message env usr room (p_room_id req) text
                             (b_message_reference_id req) (snowflake env) in
                 if MessageInsertOp \<in> set (faults env) then
                   (Threw (IOError MessageInsertOp),
                    w\<lparr>log := log w @
                       [CallRoomSelect (p_room_id req),
                        CallGenerateSnowflake (MESSAGE_WORKER_ID env),
                        CallMessageInsert msg]\<rparr>)
                 else
                   (if RedisPublishOp \<in> set (faults env) then Threw (IOError RedisPublishOp)
                    else Returned,
                    w\<lparr>log := log w @
                       [CallRoomSelect (p_room_id req),
                        CallGenerateSnowflake (MESSAGE_WORKER_ID env),
                        CallMessageInsert msg,
                        Respond 200 (CreatedBody msg 0),
                        CallRedisPublish ''stargate''
                          (message_create_event usr room text (b_message_reference_id req)
                             (snowflake env) msg)],
                      messages := upsert msg (messages w)\<rparr>)))
     | _ \<Rightarrow>
       (Returned,
        w\<lparr>log := log w @ [Respond 400 (MessageBody ''Message content must be a string.'')]\<rparr>))"
  by (simp add: post_messages_def isNaN_def Let_def Room_select_run Message_insert_def
      redis_publish_def generateSnowflake_def emit_def res_json_def
      split: js_value.splits option.splits)

text \<open>Every run of the try block of the delete handler.\<close>

lemma delete_message_try_run:
  "delete_message_try env usr req w =
    (if parseInt (p_room_id req) = None then
       (Inr (), w\<lparr>log := log w @ [Respond 400 (MessageBody ''Invalid room ID.'')]\<rparr>)
     else if parseInt (p_message_id req) = None then
       (Inr (), w\<lparr>log := log w @ [Respond 400 (MessageBody ''Invalid message ID.'')]\<rparr>)
     else if RoomSelectOp \<in> set (faults env) then
       (Inl (IOError RoomSelectOp), w\<lparr>log := log w @ [CallRoomSelect (p_room_id req)]\<rparr>)
     else case room_by_id (p_room_id req) w of
        None \<Rightarrow>
          (Inr (),
           w\<lparr>log := log w @
              [CallRoomSelect (p_room_id req),
               Respond 404 (MessageBody ''The room you were looking for does not exist.'')]\<rparr>)
      | Some room \<Rightarrow>
         if MessageSelectOp \<in> set (faults env) then
           (Inl (IOError MessageSelectOp),
            w\<lparr>log := log w @
               [CallRoomSelect (p_room_id req), CallMessageSelect (p_message_id req)]\<rparr>)
         else case message_by_id (p_message_id req) w of
            None \<Rightarrow>
              (Inr (),
               w\<lparr>log := log w @
                  [CallRoomSelect (p_room_id req),
                   CallMessageSelect (p_message_id req),
                   Respond 404
                     (MessageBody ''The message you were looking for does not exist.'')]\<rparr>)
          | Some msg \<Rightarrow>
             if MessageDeleteOp \<in> set (faults env) then
               (Inl (IOError MessageDeleteOp),
                w\<lparr>log := log w @
                   [CallRoomSelect (p_room_id req),
                    CallMessageSelect (p_message_id req),
                    CallMessageDelete (m_id msg) (m_created_at msg) (m_room_id msg)]\<rparr>)
             else if RedisPublishOp \<in> set (faults env) then
               (Inl (IOError RedisPublishOp),
                w\<lparr>log := log w @
                   [CallRoomSelect (p_room_id req),
                    CallMessageSelect (p_message_id req),
                    CallMessageDelete (m_id msg) (m_created_at msg) (m_room_id msg),
                    CallRedisPublish ''stargate'' (message_delete_event usr room msg)],
                  messages := remove_key msg (messages w)\<rparr>)
             else
               (Inr (),
                w\<lparr>log := log w @
                   [CallRoomSelect (p_room_id req),
                    CallMessageSelect (p_message_id req),
                    CallMessageDelete (m_id msg) (m_created_at msg) (m_room_id msg),
                    CallRedisPublish ''stargate'' (message_delete_event usr room msg),
                    Respond 202 (StatusBody ''Sent'')],
                  messages := remove_key msg (messages w)\<rparr>))"
  by (simp add: delete_message_try_def isNaN_def Let_def Room_select_run Message_select_run
      Message_delete_def redis_publish_def emit_def res_json_def remove_key_def
      message_delete_event_def split: option.splits)

text \<open>Every run of the try block of the typing handler.\<close>

lemma post_typing_try_run:
  "post_typing_try env usr req w =
    (if RoomSelectOp \<in> set (faults env) then
       (Inl (IOError RoomSelectOp), w\<lparr>log := log w @ [CallRoomSelect (p_room_id req)]\<rparr>)
     else case room_by_id (p_room_id req) w of
        None \<Rightarrow>
          (Inr (),
           w\<lparr>log := log w @
              [CallRoomSelect (p_room_id req),
               Respond 404 (MessageBody ''The room you were looking for does not exist.'')]\<rparr>)
      | Some room \<Rightarrow>
         if RedisPublishOp \<in> set (faults env) then
           (Inl (IOError RedisPublishOp),
            w\<lparr>log := log w @
               [CallRoomSelect (p_room_id req),
                CallRedisPublish ''stargate'' (typing_start_event usr room)]\<rparr>)
         else
           (Inr (),
            w\<lparr>log := log w @
               [CallRoomSelect (p_room_id req),
                CallRedisPublish ''stargate'' (typing_start_event usr room),
                Respond 204 (MessageBody ''OK'')]\<rparr>))"
  by (simp add: post_typing_try_def Let_def Room_select_run redis_publish_def emit_def
      res_json_def typing_start_event_def split: option.splits)

text \<open>The catch clause of the delete and typing handlers.\<close>

lemma delete_message_run:
  "delete_message env usr req w =
     (case delete_message_try env usr req w of
        (Inl err, w1) \<Rightarrow>
          (Returned,
           w1\<lparr>log := log w1 @
              [ConsoleError err, Respond 500 (MessageBody ''Interal Server Error'')]\<rparr>)
      | (Inr _, w1) \<Rightarrow> (Returned, w1))"
  by (simp add: delete_message_def res_json_def console_error_def emit_def
      split: prod.splits sum.splits)

lemma post_typing_run:
  "post_typing env usr req w =
     (case post_typing_try env usr req w of
        (Inl err, w1) \<Rightarrow>
          (Returned,
           w1\<lparr>log := log w1 @
              [ConsoleError err, Respond 500 (MessageBody ''Interal Server Error'')]\<rparr>)
      | (Inr _, w1) \<Rightarrow> (Returned, w1))"
  by (simp add: post_typing_def res_json_def console_error_def emit_def
      split: prod.splits sum.splits)

lemmas kind_defs = is_persist_def is_publish_def is_response_def is_success_response_def

lemma room_by_id_Some:
  "room_by_id rid w = Some room \<Longrightarrow> r_id room = rid \<and> room \<in> set (rooms w)"
  by (auto simp: room_by_id_def find_Some_iff)

lemma message_by_id_Some:
  "message_by_id mid w = Some msg \<Longrightarrow> m_id msg = mid \<and> msg \<in> set (messages w)"
  by (auto simp: message_by_id_def find_Some_iff)

section \<open>Validation of the room id in the create flow\<close>

text \<open>
  C5, as the handler has it. The create handler rejects a room id exactly when
  \<open>parseInt\<close> gives NaN: it then answers 400 "Invalid room id" and does nothing
  else. Whenever it goes on to resolve the room, \<open>parseInt\<close> of the room id is a
  number; the sign of that number is not looked at.
\<close>

theorem create_room_id_validation:
  "(parseInt (p_room_id req) = None \<longrightarrow>
      post_messages env usr req w =
        (Returned, w\<lparr>log := log w @ [Respond 400 (MessageBody ''Invalid room id'')]\<rparr>)) \<and>
   ((\<exists>rid. CallRoomSelect rid \<in> set (emitted w (snd (post_messages env usr req w)))) \<longrightarrow>
      parseInt (p_room_id req) \<noteq> None)"
  by (auto simp: post_messages_run Let_def split: js_value.splits option.splits if_splits)

theorem create_room_id_validation_witness:
  "parseInt (p_room_id req_letters) = None \<and>
   post_messages env_ok alice req_letters world0 =
     (Returned, world0\<lparr>log := log world0 @ [Respond 400 (MessageBody ''Invalid room id'')]\<rparr>) \<and>
   CallRoomSelect (ascii ''1'')
     \<in> set (emitted world0 (snd (post_messages env_ok alice req_base world0))) \<and>
   parseInt (p_room_id req_base) \<noteq> None"
proof -
  have a: "parseInt (p_room_id req_letters) = None"
    by code_simp
  have b: "CallRoomSelect (ascii ''1'')
             \<in> set (emitted world0 (snd (post_messages env_ok alice req_base world0)))"
    by code_simp
  from create_room_id_validation
         [where req = req_letters and env = env_ok and usr = alice and w = world0] a
  have c: "post_messages env_ok alice req_letters world0 =
     (Returned, world0\<lparr>log := log world0 @ [Respond 400 (MessageBody ''Invalid room id'')]\<rparr>)"
    by blast
  from create_room_id_validation
         [where req = req_base and env = env_ok and usr = alice and w = world0] b
  have d: "parseInt (p_room_id req_base) \<noteq> None"
    by blast
  from a b c d show ?thesis by blast
qed

text \<open>
  The room id \<open>-5\<close> parses as the negative integer -5, and the create handler
  does not reject it at validation: it looks the room up and answers 404.
\<close>

theorem create_negative_room_id_counterexample:
  "parseInt (p_room_id req_negative) = Some (- 5) \<and>
   emitted world0 (snd (post_messages env_ok alice req_negative world0)) =
     [CallRoomSelect (ascii ''-5''),
      Respond 404 (MessageBody ''The room you were looking for does not exist.'')]"
  by code_simp

section \<open>Create on a room that is not of type 1\<close>

text \<open>
  C3, as the handler has it. A create request that passes validation, on a room that
  exists and whose type is not 1, is answered 400 "This room does not support
  message sending."; no record is written and nothing is published. The id is
  generated all the same: \<open>generateSnowflake\<close> is called before the switch on the
  room type, and its result is dropped.
\<close>

theorem create_on_unsupported_room:
  assumes "parseInt (p_room_id req) \<noteq> None"
    and "b_content req = JStr str" and "str \<noteq> []" and "length str \<le> 1024"
    and "RoomSelectOp \<notin> set (faults env)"
    and "room_by_id (p_room_id req) w = Some room" and "r_type room \<noteq> 1"
  shows "post_messages env usr req w =
           (Returned,
            w\<lparr>log := log w @
               [CallRoomSelect (p_room_id req),
                CallGenerateSnowflake (MESSAGE_WORKER_ID env),
                Respond 400 (MessageBody ''This room does not support message sending.'')]\<rparr>) \<and>
         messages (snd (post_messages env usr req w)) = messages w \<and>
         \<not> list_ex is_persist (emitted w (snd (post_messages env usr req w))) \<and>
         \<not> list_ex is_publish (emitted w (snd (post_messages env usr req w)))"
  using assms by (auto simp: post_messages_run is_persist_def is_publish_def)

theorem create_on_unsupported_room_witness:
  "parseInt (p_room_id req_voice) \<noteq> None \<and>
   b_content req_voice = JStr (ascii ''hi'') \<and> ascii ''hi'' \<noteq> [] \<and>
   length (ascii ''hi'') \<le> 1024 \<and> RoomSelectOp \<notin> set (faults env_ok) \<and>
   room_by_id (p_room_id req_voice) world0 = Some voice \<and> r_type voice \<noteq> 1 \<and>
   post_messages env_ok alice req_voice world0 =
     (Returned,
      world0\<lparr>log := log world0 @
         [CallRoomSelect (p_room_id req_voice),
          CallGenerateSnowflake (MESSAGE_WORKER_ID env_ok),
          Respond 400 (MessageBody ''This room does not support message sending.'')]\<rparr>) \<and>
   messages (snd (post_messages env_ok alice req_voice world0)) = messages world0"
proof -
  have 1: "parseInt (p_room_id req_voice) \<noteq> None" by code_simp
  have 2: "b_content req_voice = JStr (ascii ''hi'')" by code_simp
  have 3: "ascii ''hi'' \<noteq> []" by code_simp
  have 4: "length (ascii ''hi'') \<le> 1024" by code_simp
  have 5: "RoomSelectOp \<notin> set (faults env_ok)" by code_simp
  have 6: "room_by_id (p_room_id req_voice) world0 = Some voice" by code_simp
  have 7: "r_type voice \<noteq> 1" by code_simp
  from create_on_unsupported_room [OF 1 2 3 4 5 6 7, of alice] 1 2 3 4 5 6 7
  show ?thesis by blast
qed

text \<open>
  On the room of type 2 the create handler calls the snowflake generator: an id is
  produced although the request is then rejected.
\<close>

theorem create_generates_id_before_dispatch_counterexample:
  "room_by_id (p_room_id req_voice) world0 = Some voice \<and> r_type voice = 2 \<and>
   CallGenerateSnowflake 1
     \<in> set (emitted world0 (snd (post_messages env_ok alice req_voice world0)))"
  by code_simp

section \<open>Length of the content\<close>

text \<open>
  C6. A create request whose content is a string of length 0 or of more than 1024
  code units is answered 400 and leaves the stored messages as they were. When the
  content is a string of 1 to 1024 code units, the room id parses, the room exists
  with type 1 and the calls to the store do not fail, the record that is inserted
  and stored has exactly that string as its content.
\<close>

theorem create_content_length:
  "(b_content req = JStr str \<and> (length str = 0 \<or> length str > 1024) \<longrightarrow>
      (\<exists>body. post_messages env usr req w =
                 (Returned, w\<lparr>log := log w @ [Respond 400 (MessageBody body)]\<rparr>)) \<and>
      messages (snd (post_messages env usr req w)) = messages w) \<and>
   (b_content req = JStr str \<and> 1 \<le> length str \<and> length str \<le> 1024 \<and>
    parseInt (p_room_id req) \<noteq> None \<and> room_by_id (p_room_id req) w = Some room \<and>
    r_type room = 1 \<and> RoomSelectOp \<notin> set (faults env) \<and> MessageInsertOp \<notin> set (faults env) \<longrightarrow>
      (\<exists>msg. CallMessageInsert msg \<in> set (emitted w (snd (post_messages env usr req w))) \<and>
             messages (snd (post_messages env usr req w)) = upsert msg (messages w) \<and>
             msg \<in> set (messages (snd (post_messages env usr req w))) \<and>
             m_content msg = str))"
  by (auto simp: post_messages_run Let_def upsert_def new_message_def)

theorem create_content_length_witness:
  "length long_text > 1024 \<and>
   (\<exists>body. post_messages env_ok alice (req_base\<lparr>b_content := JStr long_text\<rparr>) world0 =
             (Returned, world0\<lparr>log := log world0 @ [Respond 400 (MessageBody body)]\<rparr>)) \<and>
   (\<exists>body. post_messages env_ok alice (req_base\<lparr>b_content := JStr []\<rparr>) world0 =
             (Returned, world0\<lparr>log := log world0 @ [Respond 400 (MessageBody body)]\<rparr>)) \<and>
   b_content req_base = JStr (ascii ''hi'') \<and> 1 \<le> length (ascii ''hi'') \<and>
   length (ascii ''hi'') \<le> 1024 \<and> parseInt (p_room_id req_base) \<noteq> None \<and>
   room_by_id (p_room_id req_base) world0 = Some lobby \<and> r_type lobby = 1 \<and>
   RoomSelectOp \<notin> set (faults env_ok) \<and> MessageInsertOp \<notin> set (faults env_ok) \<and>
   (\<exists>msg. msg \<in> set (messages (snd (post_messages env_ok alice req_base world0))) \<and>
          m_content msg = ascii ''hi'')"
proof -
  have l: "length long_text = 1025"
    by (simp add: long_text_def)
  have 1: "b_content (req_base\<lparr>b_content := JStr long_text\<rparr>) = JStr long_text \<and>
           (length long_text = 0 \<or> length long_text > 1024)"
    using l by simp
  have 2: "b_content (req_base\<lparr>b_content := JStr []\<rparr>) = JStr [] \<and>
           (length ([] :: jsstring) = 0 \<or> length ([] :: jsstring) > 1024)"
    by simp
  have 3: "b_content req_base = JStr (ascii ''hi'') \<and> 1 \<le> length (ascii ''hi'') \<and>
           length (ascii ''hi'') \<le> 1024 \<and> parseInt (p_room_id req_base) \<noteq> None \<and>
           room_by_id (p_room_id req_base) world0 = Some lobby \<and> r_type lobby = 1 \<and>
           RoomSelectOp \<notin> set (faults env_ok) \<and> MessageInsertOp \<notin> set (faults env_ok)"
    by code_simp
  from create_content_length
         [where req = "req_base\<lparr>b_content := JStr long_text\<rparr>" and str = long_text
            and env = env_ok and usr = alice and w = world0] 1
  have a: "\<exists>body. post_messages env_ok alice (req_base\<lparr>b_content := JStr long_text\<rparr>) world0 =
             (Returned, world0\<lparr>log := log world0 @ [Respond 400 (MessageBody body)]\<rparr>)"
    by blast
  from create_content_length
         [where req = "req_base\<lparr>b_content := JStr []\<rparr>" and str = "[]"
            and env = env_ok and usr = alice and w = world0] 2
  have b: "\<exists>body. post_messages env_ok alice (req_base\<lparr>b_content := JStr []\<rparr>) world0 =
             (Returned, world0\<lparr>log := log world0 @ [Respond 400 (MessageBody body)]\<rparr>)"
    by blast
  from create_content_length
         [where req = req_base and str = "ascii ''hi''" and room = lobby
            and env = env_ok and usr = alice and w = world0] 3
  have c: "\<exists>msg. msg \<in> set (messages (snd (post_messages env_ok alice req_base world0))) \<and>
          m_content msg = ascii ''hi''"
    by blast
  from l have l': "length long_text > 1024" by simp
  from a b c 3 l' show ?thesis by blast
qed

section \<open>Order of persistence, response and publication\<close>

lemma create_persist_before_response:
  "preceded is_persist is_success_response (emitted w (snd (post_messages env usr req w)))"
  by (simp add: post_messages_run Let_def emitted_def kind_defs
      split: js_value.splits option.splits)

lemma create_response_before_publish:
  "preceded is_success_response is_publish (emitted w (snd (post_messages env usr req w)))"
  by (simp add: post_messages_run Let_def emitted_def kind_defs
      split: js_value.splits option.splits)

lemma create_success_publishes:
  "list_ex is_success_response (emitted w (snd (post_messages env usr req w))) \<longrightarrow>
     list_ex is_publish (emitted w (snd (post_messages env usr req w)))"
  by (simp add: post_messages_run Let_def emitted_def kind_defs
      split: js_value.splits option.splits)

lemma delete_persist_before_publish:
  "preceded is_persist is_publish (emitted w (snd (delete_message env usr req w)))"
  by (simp add: delete_message_run delete_message_try_run emitted_def kind_defs
      split: option.splits)

lemma delete_persist_before_response:
  "preceded is_persist is_success_response (emitted w (snd (delete_message env usr req w)))"
  by (simp add: delete_message_run delete_message_try_run emitted_def kind_defs
      split: option.splits)

lemma delete_publish_before_response:
  "preceded is_publish is_success_response (emitted w (snd (delete_message env usr req w)))"
  by (simp add: delete_message_run delete_message_try_run emitted_def kind_defs
      split: option.splits)

text \<open>
  C2, as the handlers have it. In both flows the write to the store (insert or
  delete) is attempted before any success response and before any publication. In
  the create flow the 200 response is sent before the publication is attempted, and
  a request that got its 200 response also has its publication attempted. In the
  delete flow it is the other way round: the publication is attempted first, and the
  202 response is sent after it.
\<close>

theorem effect_order:
  "preceded is_persist is_success_response (emitted w (snd (post_messages env usr req w))) \<and>
   preceded is_success_response is_publish (emitted w (snd (post_messages env usr req w))) \<and>
   (list_ex is_success_response (emitted w (snd (post_messages env usr req w))) \<longrightarrow>
      list_ex is_publish (emitted w (snd (post_messages env usr req w)))) \<and>
   preceded is_persist is_success_response (emitted w (snd (delete_message env usr req w))) \<and>
   preceded is_persist is_publish (emitted w (snd (delete_message env usr req w))) \<and>
   preceded is_publish is_success_response (emitted w (snd (delete_message env usr req w)))"
  by (intro conjI create_persist_before_response create_response_before_publish
      create_success_publishes delete_persist_before_response delete_persist_before_publish
      delete_publish_before_response)

theorem effect_order_witness:
  "list_ex is_success_response
     (emitted world0 (snd (post_messages env_ok alice req_base world0))) \<and>
   list_ex is_publish (emitted world0 (snd (post_messages env_ok alice req_base world0))) \<and>
   preceded is_persist is_success_response
     (emitted world0 (snd (post_messages env_ok alice req_base world0))) \<and>
   preceded is_success_response is_publish
     (emitted world0 (snd (post_messages env_ok alice req_base world0))) \<and>
   list_ex is_success_response
     (emitted world0 (snd (delete_message env_ok alice req_base world0))) \<and>
   preceded is_persist is_publish
     (emitted world0 (snd (delete_message env_ok alice req_base world0))) \<and>
   preceded is_publish is_success_response
     (emitted world0 (snd (delete_message env_ok alice req_base world0)))"
proof -
  have a: "list_ex is_success_response
             (emitted world0 (snd (post_messages env_ok alice req_base world0)))"
    by code_simp
  have b: "list_ex is_success_response
             (emitted world0 (snd (delete_message env_ok alice req_base world0)))"
    by code_simp
  from effect_order [where w = world0 and env = env_ok and usr = alice and req = req_base] a b
  show ?thesis by blast
qed

text \<open>
  A delete that succeeds: the 202 response is in the log, and the publication is
  not preceded by it.
\<close>

theorem delete_publishes_before_responding_counterexample:
  "list_ex is_success_response
     (emitted world0 (snd (delete_message env_ok alice req_base world0))) \<and>
   \<not> preceded is_success_response is_publish
       (emitted world0 (snd (delete_message env_ok alice req_base world0)))"
  by code_simp

section \<open>The key of a delete\<close>







section \<open>The message_delete event\<close>

lemma delete_success_run:
  assumes "Respond 202 (StatusBody ''Sent'')
             \<in> set (emitted w (snd (delete_message env usr req w)))"
  shows "\<exists>room msg.
           room_by_id (p_room_id req) w = Some room \<and>
           message_by_id (p_message_id req) w = Some msg \<and>
           messages (snd (delete_message env usr req w)) = remove_key msg (messages w) \<and>
           emitted w (snd (delete_message env usr req w)) =
             [CallRoomSelect (p_room_id req), CallMessageSelect (p_message_id req),
              CallMessageDelete (m_id msg) (m_created_at msg) (m_room_id msg),
              CallRedisPublish ''stargate'' (message_delete_event usr room msg),
              Respond 202 (StatusBody ''Sent'')]"
  using assms
  by (simp add: delete_message_run delete_message_try_run emitted_def
      split: option.splits if_splits)

text \<open>
  C8. A delete that is answered 202 has removed the row found by the message id and
  has published exactly one event, a \<open>message_delete\<close> on channel stargate. Its
  content is the content of the removed row, and its author object is built from
  the caller of the delete (\<open>res.locals.user\<close>): id, username and display name
  are the caller's; the author id stored in the row is not read.
\<close>

theorem delete_event_names_the_deleter:
  assumes "Respond 202 (StatusBody ''Sent'')
             \<in> set (emitted w (snd (delete_message env usr req w)))"
  shows "\<exists>msg d.
           message_by_id (p_message_id req) w = Some msg \<and>
           messages (snd (delete_message env usr req w)) = remove_key msg (messages w) \<and>
           filter is_publish (emitted w (snd (delete_message env usr req w))) =
             [CallRedisPublish ''stargate'' (message_delete d)] \<and>
           md_content d = m_content msg \<and>
           md_author d = author_of usr \<and>
           pf_id (md_author d) = u_id usr \<and>
           pf_username (md_author d) = u_username usr \<and>
           pf_display_name (md_author d) = nullish_opt (u_global_name usr) (u_username usr)"
proof -
  from delete_success_run [OF assms] obtain room msg where
    m: "message_by_id (p_message_id req) w = Some msg"
    and s: "messages (snd (delete_message env usr req w)) = remove_key msg (messages w)"
    and e: "emitted w (snd (delete_message env usr req w)) =
             [CallRoomSelect (p_room_id req), CallMessageSelect (p_message_id req),
              CallMessageDelete (m_id msg) (m_created_at msg) (m_room_id msg),
              CallRedisPublish ''stargate'' (message_delete_event usr room msg),
              Respond 202 (StatusBody ''Sent'')]"
    by blast
  let ?d = "\<lparr> md_id = m_id msg, md_room_id = r_id room, md_space_id = r_space_id room,
              md_content = m_content msg, md_author = author_of usr \<rparr>"
  have "filter is_publish (emitted w (snd (delete_message env usr req w))) =
          [CallRedisPublish ''stargate'' (message_delete ?d)]"
    by (simp add: e is_publish_def message_delete_event_def)
  moreover have "md_content ?d = m_content msg \<and> md_author ?d = author_of usr \<and>
    pf_id (md_author ?d) = u_id usr \<and> pf_username (md_author ?d) = u_username usr \<and>
    pf_display_name (md_author ?d) = nullish_opt (u_global_name usr) (u_username usr)"
    by (simp add: author_of_def)
  ultimately show ?thesis using m s by blast
qed

theorem delete_event_names_the_deleter_witness:
  "Respond 202 (StatusBody ''Sent'')
     \<in> set (emitted world0 (snd (delete_message env_ok alice req_base world0))) \<and>
   message_by_id (p_message_id req_base) world0 = Some hello \<and>
   m_author_id hello = u_id bob \<and> u_id bob \<noteq> u_id alice \<and>
   (\<exists>d. filter is_publish (emitted world0 (snd (delete_message env_ok alice req_base world0))) =
           [CallRedisPublish ''stargate'' (message_delete d)] \<and>
        md_content d = m_content hello \<and> pf_id (md_author d) = u_id alice)"
proof -
  have h: "Respond 202 (StatusBody ''Sent'')
     \<in> set (emitted world0 (snd (delete_message env_ok alice req_base world0)))"
    by code_simp
  have m: "message_by_id (p_message_id req_base) world0 = Some hello \<and>
     m_author_id hello = u_id bob \<and> u_id bob \<noteq> u_id alice"
    by code_simp
  from delete_event_names_the_deleter [OF h] m h show ?thesis
    by auto
qed

text \<open>
  C10. The delete handler finds the message by its id alone (\<open>message_by_id\<close> tests
  no other column), and every \<open>message_delete\<close> event it publishes has the room id
  of the request and the space id of that room. So when the row is stored under
  another room than the one of the request, the event names the room of the request
  and not the room the message was in.
\<close>

theorem delete_event_reports_url_room:
  assumes "CallRedisPublish ch (message_delete d)
             \<in> set (emitted w (snd (delete_message env usr req w)))"
  shows "\<exists>room msg.
           room_by_id (p_room_id req) w = Some room \<and>
           message_by_id (p_message_id req) w = Some msg \<and>
           md_id d = m_id msg \<and>
           md_room_id d = p_room_id req \<and>
           md_space_id d = r_space_id room \<and>
           (m_room_id msg \<noteq> p_room_id req \<longrightarrow> md_room_id d \<noteq> m_room_id msg)"
  using assms
  by (auto simp: delete_message_run delete_message_try_run emitted_def message_delete_event_def
      dest: room_by_id_Some split: option.splits if_splits)

theorem delete_event_reports_url_room_witness:
  "CallRedisPublish ''stargate''
      (message_delete
         \<lparr> md_id = m_id hello, md_room_id = r_id voice, md_space_id = r_space_id voice,
           md_content = m_content hello, md_author = author_of alice \<rparr>)
     \<in> set (emitted world0 (snd (delete_message env_ok alice req_cross world0))) \<and>
   message_by_id (p_message_id req_cross) world0 = Some hello \<and>
   m_room_id hello = ascii ''1'' \<and> p_room_id req_cross = ascii ''2'' \<and>
   r_id voice = p_room_id req_cross \<and> r_id voice \<noteq> m_room_id hello"
proof -
  have h: "CallRedisPublish ''stargate''
      (message_delete
         \<lparr> md_id = m_id hello, md_room_id = r_id voice, md_space_id = r_space_id voice,
           md_content = m_content hello, md_author = author_of alice \<rparr>)
     \<in> set (emitted world0 (snd (delete_message env_ok alice req_cross world0)))"
    by code_simp
  have m: "message_by_id (p_message_id req_cross) world0 = Some hello \<and>
     m_room_id hello = ascii ''1'' \<and> p_room_id req_cross = ascii ''2''"
    by code_simp
  have n: "ascii ''1'' \<noteq> ascii ''2''"
    by code_simp
  from delete_event_reports_url_room [OF h] m n h show ?thesis
    by auto
qed

section \<open>The catch clause of the delete and typing flows\<close>

lemma delete_never_throws: "fst (delete_message env usr req w) = Returned"
  by (simp add: delete_message_run split: prod.splits sum.splits)

lemma typing_never_throws: "fst (post_typing env usr req w) = Returned"
  by (simp add: post_typing_run split: prod.splits sum.splits)

lemma delete_caught:
  "delete_message_try env usr req w = (Inl err, w1) \<longrightarrow>
     delete_message env usr req w =
       (Returned,
        w1\<lparr>log := log w1 @
           [ConsoleError err, Respond 500 (MessageBody ''Interal Server Error'')]\<rparr>) \<and>
     \<not> list_ex is_response (emitted w w1)"
  by (auto simp: delete_message_run delete_message_try_run emitted_def is_response_def
      split: option.splits if_splits)

lemma typing_caught:
  "post_typing_try env usr req w = (Inl err, w1) \<longrightarrow>
     post_typing env usr req w =
       (Returned,
        w1\<lparr>log := log w1 @
           [ConsoleError err, Respond 500 (MessageBody ''Interal Server Error'')]\<rparr>) \<and>
     \<not> list_ex is_response (emitted w w1)"
  by (auto simp: post_typing_run post_typing_try_run emitted_def is_response_def
      split: option.splits if_splits)

lemma delete_one_response:
  "length (filter is_response (emitted w (snd (delete_message env usr req w)))) = 1"
  by (simp add: delete_message_run delete_message_try_run emitted_def is_response_def
      split: option.splits)

lemma typing_one_response:
  "length (filter is_response (emitted w (snd (post_typing env usr req w)))) = 1"
  by (simp add: post_typing_run post_typing_try_run emitted_def is_response_def
      split: option.splits)

text \<open>
  The create handler has no catch clause: with the store down, its promise rejects.
\<close>

lemma create_can_throw:
  "fst (post_messages env_store_down alice req_base world0) = Threw (IOError RoomSelectOp)"
  by code_simp

text \<open>
  C9. The delete handler and the typing handler never end in a rejected promise.
  Whenever the try block raises, no response has been sent yet, the error is
  logged and the response is 500 with the generic message. Either handler sends
  exactly one response per request.
\<close>

theorem delete_and_typing_catch_all:
  "fst (delete_message env usr req w) = Returned \<and>
   fst (post_typing env usr req w) = Returned \<and>
   (\<forall>err w1. delete_message_try env usr req w = (Inl err, w1) \<longrightarrow>
      delete_message env usr req w =
        (Returned,
         w1\<lparr>log := log w1 @
            [ConsoleError err, Respond 500 (MessageBody ''Interal Server Error'')]\<rparr>) \<and>
      \<not> list_ex is_response (emitted w w1)) \<and>
   (\<forall>err w1. post_typing_try env usr req w = (Inl err, w1) \<longrightarrow>
      post_typing env usr req w =
        (Returned,
         w1\<lparr>log := log w1 @
            [ConsoleError err, Respond 500 (MessageBody ''Interal Server Error'')]\<rparr>) \<and>
      \<not> list_ex is_response (emitted w w1)) \<and>
   length (filter is_response (emitted w (snd (delete_message env usr req w)))) = 1 \<and>
   length (filter is_response (emitted w (snd (post_typing env usr req w)))) = 1"
  by (intro conjI allI delete_never_throws typing_never_throws delete_caught typing_caught
      delete_one_response typing_one_response)

theorem delete_and_typing_catch_all_witness:
  "delete_message_try env_bus_down alice req_base world0 =
     (Inl (IOError RedisPublishOp),
      world0\<lparr>log := [CallRoomSelect (ascii ''1''), CallMessageSelect (ascii ''900''),
                     CallMessageDelete (ascii ''900'') 1000 (ascii ''1''),
                     CallRedisPublish ''stargate'' (message_delete_event alice lobby hello)],
              messages := []\<rparr>) \<and>
   delete_message env_bus_down alice req_base world0 =
     (Returned,
      world0\<lparr>log := [CallRoomSelect (ascii ''1''), CallMessageSelect (ascii ''900''),
                     CallMessageDelete (ascii ''900'') 1000 (ascii ''1''),
                     CallRedisPublish ''stargate'' (message_delete_event alice lobby hello),
                     ConsoleError (IOError RedisPublishOp),
                     Respond 500 (MessageBody ''Interal Server Error'')],
              messages := []\<rparr>) \<and>
   post_typing_try env_store_down alice req_base world0 =
     (Inl (IOError RoomSelectOp), world0\<lparr>log := [CallRoomSelect (ascii ''1'')]\<rparr>) \<and>
   post_typing env_store_down alice req_base world0 =
     (Returned,
      world0\<lparr>log := [CallRoomSelect (ascii ''1''), ConsoleError (IOError RoomSelectOp),
                     Respond 500 (MessageBody ''Interal Server Error'')]\<rparr>)"
proof -
  have a: "delete_message_try env_bus_down alice req_base world0 =
     (Inl (IOError RedisPublishOp),
      world0\<lparr>log := [CallRoomSelect (ascii ''1''), CallMessageSelect (ascii ''900''),
                     CallMessageDelete (ascii ''900'') 1000 (ascii ''1''),
                     CallRedisPublish ''stargate'' (message_delete_event alice lobby hello)],
              messages := []\<rparr>)"
    by code_simp
  have b: "post_typing_try env_store_down alice req_base world0 =
     (Inl (IOError RoomSelectOp), world0\<lparr>log := [CallRoomSelect (ascii ''1'')]\<rparr>)"
    by code_simp
  note t = delete_and_typing_catch_all
             [where env = env_bus_down and usr = alice and req = req_base and w = world0]
  note u = delete_and_typing_catch_all
             [where env = env_store_down and usr = alice and req = req_base and w = world0]
  from t a have c: "delete_message env_bus_down alice req_base world0 =
     (Returned,
      world0\<lparr>log := [CallRoomSelect (ascii ''1''), CallMessageSelect (ascii ''900''),
                     CallMessageDelete (ascii ''900'') 1000 (ascii ''1''),
                     CallRedisPublish ''stargate'' (message_delete_event alice lobby hello),
                     ConsoleError (IOError RedisPublishOp),
                     Respond 500 (MessageBody ''Interal Server Error'')],
              messages := []\<rparr>)"
    by simp
  from u b have d: "post_typing env_store_down alice req_base world0 =
     (Returned,
      world0\<lparr>log := [CallRoomSelect (ascii ''1''), ConsoleError (IOError RoomSelectOp),
                     Respond 500 (MessageBody ''Interal Server Error'')]\<rparr>)"
    by simp
  from a b c d show ?thesis by blast
qed

section \<open>A room id that does not parse\<close>

text \<open>
  The create and delete handlers answer 400 to a room id that \<open>parseInt\<close> turns
  into NaN, and do nothing else.
\<close>

lemma create_invalid_room_id:
  "parseInt (p_room_id req) = None \<Longrightarrow>
   emitted w (snd (post_messages env usr req w)) =
     [Respond 400 (MessageBody ''Invalid room id'')] \<and>
   \<not> list_ex is_storage_or_bus_call (emitted w (snd (post_messages env usr req w))) \<and>
   messages (snd (post_messages env usr req w)) = messages w"
  by (simp add: post_messages_run is_storage_or_bus_call_def)

lemma delete_invalid_room_id:
  "parseInt (p_room_id req) = None \<Longrightarrow>
   emitted w (snd (delete_message env usr req w)) =
     [Respond 400 (MessageBody ''Invalid room ID.'')] \<and>
   \<not> list_ex is_storage_or_bus_call (emitted w (snd (delete_message env usr req w))) \<and>
   messages (snd (delete_message env usr req w)) = messages w"
  by (simp add: delete_message_run delete_message_try_run is_storage_or_bus_call_def)

text \<open>The typing handler starts with the room lookup, whatever the room id is.\<close>

lemma typing_always_selects:
  "hd (emitted w (snd (post_typing env usr req w))) = CallRoomSelect (p_room_id req)"
  by (simp add: post_typing_run post_typing_try_run emitted_def split: option.splits)

text \<open>
  C4 at the room id \<open>lobby\<close>, which \<open>parseInt\<close> turns into NaN: the typing handler
  queries the store for that id and answers 404, where the claim has a 400 answer
  and no call to the store.
\<close>

theorem typing_skips_room_id_validation:
  "parseInt (p_room_id req_letters) = None \<and>
   emitted world0 (snd (post_typing env_ok alice req_letters world0)) =
     [CallRoomSelect (ascii ''lobby''),
      Respond 404 (MessageBody ''The room you were looking for does not exist.'')] \<and>
   list_ex is_storage_or_bus_call
     (emitted world0 (snd (post_typing env_ok alice req_letters world0)))"
  by code_simp

section \<open>The admission limit\<close>












lemma route_admitted:
  "fst (messageCreateLimit req now lim) \<Longrightarrow>
   post_messages_route env usr req now (lim, w) =
     (fst (post_messages env usr req w), lim @ [(h_authorization req, now)],
      snd (post_messages env usr req w))"
  by (auto simp: post_messages_route_def messageCreateLimit_def check_def keyGenerator_def
      split: if_splits prod.splits)






end
